theory Spec2Isabelle
  imports Main
begin

section \<open>Syntax trees\<close>

text \<open>
  The expression nodes of \<^verbatim>\<open>go/ast\<close> that \<^verbatim>\<open>getTypeString\<close> does not
  handle. Only their dynamic type is observed (through the \<^verbatim>\<open>%T\<close> verb), so
  they carry no children. \<open>NilExpr\<close> is the nil interface value.
\<close>

datatype otherKind =
    BadExpr | Ellipsis | BasicLit | FuncLit | CompositeLit | ParenExpr
  | IndexExpr | IndexListExpr | SliceExpr | TypeAssertExpr | CallExpr
  | UnaryExpr | BinaryExpr | KeyValueExpr | StructType | ChanType | NilExpr

text \<open>
  \<^verbatim>\<open>ast.Expr\<close> and \<^verbatim>\<open>ast.Field\<close>. A \<^verbatim>\<open>*ast.FieldList\<close> is a
  \<open>field list option\<close>: \<open>None\<close> is the nil pointer, \<open>Some fs\<close> a list whose
  \<^verbatim>\<open>List\<close> is \<open>fs\<close>. \<open>ArrayType\<close> keeps its \<^verbatim>\<open>Len\<close> (absent for a
  slice). A Go slice is a list; the nil slice and the empty slice are both \<open>[]\<close>.
\<close>

datatype expr =
    Ident string
  | SelectorExpr expr string
  | StarExpr expr
  | ArrayType "expr option" expr
  | MapType expr expr
  | InterfaceType "field list option"
  | FuncType "field list option" "field list option"
  | Other otherKind
and field = Field (Names: "string list") (Type: expr)

section \<open>Library functions\<close>

text \<open>\<^verbatim>\<open>strings.Join(elems, sep)\<close>.\<close>

fun Join :: "string list \<Rightarrow> string \<Rightarrow> string" where
  "Join [] sep = []"
| "Join [x] sep = x"
| "Join (x # y # ys) sep = x @ sep @ Join (y # ys) sep"

text \<open>\<^verbatim>\<open>fmt.Sprintf("%T", expr)\<close> for the nodes of \<open>otherKind\<close>.\<close>

fun typeName :: "otherKind \<Rightarrow> string" where
  "typeName BadExpr = ''*ast.BadExpr''"
| "typeName Ellipsis = ''*ast.Ellipsis''"
| "typeName BasicLit = ''*ast.BasicLit''"
| "typeName FuncLit = ''*ast.FuncLit''"
| "typeName CompositeLit = ''*ast.CompositeLit''"
| "typeName ParenExpr = ''*ast.ParenExpr''"
| "typeName IndexExpr = ''*ast.IndexExpr''"
| "typeName IndexListExpr = ''*ast.IndexListExpr''"
| "typeName SliceExpr = ''*ast.SliceExpr''"
| "typeName TypeAssertExpr = ''*ast.TypeAssertExpr''"
| "typeName CallExpr = ''*ast.CallExpr''"
| "typeName UnaryExpr = ''*ast.UnaryExpr''"
| "typeName BinaryExpr = ''*ast.BinaryExpr''"
| "typeName KeyValueExpr = ''*ast.KeyValueExpr''"
| "typeName StructType = ''*ast.StructType''"
| "typeName ChanType = ''*ast.ChanType''"
| "typeName NilExpr = ''<nil>''"

text \<open>\<^verbatim>\<open>fmt.Sprintf("%d", i)\<close> for an index \<open>i\<close> (never negative).\<close>

fun itoa :: "nat \<Rightarrow> string" where
  "itoa n = (if n < 10 then [''0123456789'' ! n]
             else itoa (n div 10) @ [''0123456789'' ! (n mod 10)])"

declare itoa.simps [simp del]

section \<open>Signature normalization\<close>

text \<open>
  \<^verbatim>\<open>getTypeString\<close> and \<^verbatim>\<open>getFieldList\<close> call each other. The loop of
  \<^verbatim>\<open>getFieldList\<close> over \<^verbatim>\<open>fields.List\<close> is \<open>getFieldListLoop\<close>, its body
  for one field is \<open>getFieldListBody\<close>; appending to \<^verbatim>\<open>params\<close> in the loop
  is \<open>@\<close>.
\<close>

function getTypeString :: "expr \<Rightarrow> string"
  and getFieldList :: "field list option \<Rightarrow> string list"
  and getFieldListLoop :: "field list \<Rightarrow> string list"
  and getFieldListBody :: "field \<Rightarrow> string list"
where
  "getTypeString (Ident name) = name"
| "getTypeString (SelectorExpr x sel) = getTypeString x @ ''.'' @ sel"
| "getTypeString (StarExpr x) = ''*'' @ getTypeString x"
| "getTypeString (ArrayType len elt) = ''[]'' @ getTypeString elt"
| "getTypeString (MapType key val) =
     ''map['' @ getTypeString key @ '']'' @ getTypeString val"
| "getTypeString (InterfaceType methods) = ''interface{}''"
| "getTypeString (FuncType params results) =
     ''func('' @ Join (getFieldList params) '', '' @ '') ''
       @ Join (getFieldList results) '', ''"
| "getTypeString (Other k) = typeName k"
| "getFieldList None = []"
| "getFieldList (Some fs) = getFieldListLoop fs"
| "getFieldListLoop [] = []"
| "getFieldListLoop (f # fs) = getFieldListBody f @ getFieldListLoop fs"
| "getFieldListBody (Field names ty) =
     (let paramType = getTypeString ty in
      if length names > 0 then map (\<lambda>name. name @ '' '' @ paramType) names
      else [paramType])"
  by pat_completeness auto

termination
  by (relation "measure (\<lambda>a. case a of
          Inl (Inl e) \<Rightarrow> 2 * size e
        | Inl (Inr fo) \<Rightarrow> 2 * size_option (size_list size) fo + 1
        | Inr (Inl fs) \<Rightarrow> 2 * size_list size fs + 1
        | Inr (Inr f) \<Rightarrow> 2 * size f)") auto

text \<open>
  \<^verbatim>\<open>getFieldNames\<close>: the loop over \<^verbatim>\<open>fields.List\<close>; the inner loop
  appends every \<^verbatim>\<open>name.Name\<close> of the field, in order.
\<close>

fun getFieldNamesLoop :: "field list \<Rightarrow> string list" where
  "getFieldNamesLoop [] = []"
| "getFieldNamesLoop (f # fs) =
     (if length (Names f) > 0 then Names f else [''_'']) @ getFieldNamesLoop fs"

fun getFieldNames :: "field list option \<Rightarrow> string list" where
  "getFieldNames None = []"
| "getFieldNames (Some fs) = getFieldNamesLoop fs"

text \<open>
  \<^verbatim>\<open>getResultNames\<close>: the same loop, with the loop index \<open>i\<close> of the field
  in \<^verbatim>\<open>fields.List\<close> carried along.
\<close>

fun getResultNamesLoop :: "nat \<Rightarrow> field list \<Rightarrow> string list" where
  "getResultNamesLoop i [] = []"
| "getResultNamesLoop i (f # fs) =
     (if length (Names f) > 0 then Names f else [''R'' @ itoa i])
       @ getResultNamesLoop (Suc i) fs"

fun getResultNames :: "field list option \<Rightarrow> string list" where
  "getResultNames None = []"
| "getResultNames (Some fs) = getResultNamesLoop 0 fs"

section \<open>Outcomes of a call\<close>

text \<open>
  A call either panics (with the panic's message) or returns. A Go \<^verbatim>\<open>error\<close>
  value is a \<open>string option\<close>: \<open>None\<close> is nil, \<open>Some m\<close> an error whose
  message is \<open>m\<close>.
\<close>

datatype 'a outcome = Panic string | Return 'a

section \<open>The stub synthesizer\<close>

record methodData =
  Name :: string
  Params :: "string list"
  ParamNames :: "string list"
  Results :: "string list"
  ResultNames :: "string list"

text \<open>
  \<^verbatim>\<open>zip\<close>. \<^verbatim>\<open>fmt.Sprintf\<close> at a format string and two string operands
  is the parameter \<open>sprintf\<close>.
\<close>

definition zip_go ::
  "(string \<Rightarrow> string \<Rightarrow> string \<Rightarrow> string) \<Rightarrow> string list \<Rightarrow> string list \<Rightarrow> string
     \<Rightarrow> string list outcome" where
  "zip_go sprintf a b fmtStr =
     (if length a \<noteq> length b then Panic ''unequal length''
      else Return (map (\<lambda>i. sprintf fmtStr (a ! i) (b ! i)) [0 ..< length a]))"

text \<open>\<^verbatim>\<open>joinl\<close>.\<close>

definition joinl :: "string \<Rightarrow> string list \<Rightarrow> string" where
  "joinl sep a = Join a sep"

text \<open>
  The loop of \<^verbatim>\<open>generateStubCode\<close> over \<^verbatim>\<open>methods\<close>. A field without
  names is skipped; the type assertion \<^verbatim>\<open>method.Type.(*ast.FuncType)\<close> panics
  on any other node.
\<close>

fun methodsDataLoop :: "methodData list \<Rightarrow> field list \<Rightarrow> methodData list outcome" where
  "methodsDataLoop methodsData [] = Return methodsData"
| "methodsDataLoop methodsData (method # methods) =
     (if length (Names method) = 0 then methodsDataLoop methodsData methods
      else
        let methodName = Names method ! 0 in
        case Type method of
          FuncType funcParams funcResults \<Rightarrow>
            let params = getFieldList funcParams;
                paramNames = getFieldNames funcParams;
                results = getFieldList funcResults;
                resultNames = getResultNames funcResults
            in methodsDataLoop (methodsData @
                   [\<lparr>Name = methodName, Params = params, ParamNames = paramNames,
                     Results = results, ResultNames = resultNames\<rparr>]) methods
        | _ \<Rightarrow> Panic ''interface conversion: ast.Expr is not *ast.FuncType'')"

text \<open>The data handed to the template.\<close>

record stubSpec =
  PackageName :: string
  InterfaceName :: string
  StubName :: string
  Methods :: "methodData list"

text \<open>
  What \<^verbatim>\<open>generateStubCode\<close> takes from outside this file:
  \<^item> \<open>templateParse\<close>: the result of parsing the embedded \<^verbatim>\<open>stub.go.tmpl\<close>
    with the function map (an error message, or the template);
  \<^item> \<open>templateExecute\<close>: \<^verbatim>\<open>tmpl.Execute\<close> on the data (an error message, or
    the text written to the buffer);
  \<^item> \<open>parserParseFile\<close>: \<^verbatim>\<open>parser.ParseFile\<close> on a source text;
  \<^item> \<open>formatNode\<close>: \<^verbatim>\<open>format.Node\<close> on the parsed file;
  \<^item> \<open>jsonMarshalIndent\<close>: the text \<^verbatim>\<open>prettyPrint\<close> gives for the method
    data.
\<close>

record ('t, 'n) externals =
  templateParse :: "string + 't"
  templateExecute :: "'t \<Rightarrow> stubSpec \<Rightarrow> string + string"
  parserParseFile :: "string \<Rightarrow> string + 'n"
  formatNode :: "'n \<Rightarrow> string + string"
  jsonMarshalIndent :: "methodData list \<Rightarrow> string"

text \<open>
  \<^verbatim>\<open>generateStubCode\<close>. The standard output is threaded through: the call
  takes what has been printed so far and returns it extended by its
  \<^verbatim>\<open>fmt.Println\<close>. A returned pair is the Go pair \<^verbatim>\<open>(string, error)\<close>.
\<close>

definition generateStubCode ::
  "('t, 'n) externals \<Rightarrow> string \<Rightarrow> field list \<Rightarrow> string \<Rightarrow> bool \<Rightarrow> string
     \<Rightarrow> (string \<times> string option) outcome \<times> string" where
  "generateStubCode ext interfaceName methods packageName disableFormatting stdout =
     (let stubName = ''Stub'' @ interfaceName in
      case templateParse ext of
        Inl err \<Rightarrow> (Panic err, stdout)
      | Inr tmpl \<Rightarrow>
          (case methodsDataLoop [] methods of
             Panic m \<Rightarrow> (Panic m, stdout)
           | Return methodsData \<Rightarrow>
               let stdout' = stdout @ jsonMarshalIndent ext methodsData @ [CHR 0x0A] in
               (case templateExecute ext tmpl
                       \<lparr>PackageName = packageName, InterfaceName = interfaceName,
                        StubName = stubName, Methods = methodsData\<rparr> of
                  Inl err \<Rightarrow>
                    (Return ([], Some (''error generating stub: '' @ err)), stdout')
                | Inr buf \<Rightarrow>
                    if \<not> disableFormatting then
                      (case parserParseFile ext buf of
                         Inl err \<Rightarrow>
                           (Return ([], Some (''error parsing generated code: '' @ err)),
                            stdout')
                       | Inr node \<Rightarrow>
                           (case formatNode ext node of
                              Inl err \<Rightarrow>
                                (Return ([],
                                   Some (''error formatting generated code: '' @ err)),
                                 stdout')
                            | Inr formattedBuf \<Rightarrow> (Return (formattedBuf, None), stdout')))
                    else (Return (buf, None), stdout'))))"

section \<open>The interface extractor\<close>

text \<open>
  The nodes \<^verbatim>\<open>ast.Inspect\<close> walks. A node is a \<^verbatim>\<open>*ast.TypeSpec\<close> (with
  its \<^verbatim>\<open>Name.Name\<close> and its \<^verbatim>\<open>Type\<close>) or any other node; in both cases
  it has its children, in the order of the walk.
\<close>

datatype nodeKind = TypeSpec string expr | OtherNode

datatype node = Node nodeKind "node list"

text \<open>
  \<^verbatim>\<open>ast.Inspect\<close>: depth first; \<open>f\<close> is called on the node, on the children
  when it returned true, and then on nil.
\<close>

fun Inspect :: "(node option \<Rightarrow> 's \<Rightarrow> bool \<times> 's) \<Rightarrow> node \<Rightarrow> 's \<Rightarrow> 's" where
  "Inspect f (Node k children) s =
     (case f (Some (Node k children)) s of
        (True, s') \<Rightarrow> snd (f None (fold (Inspect f) children s'))
      | (False, s') \<Rightarrow> s')"

record package =
  PkgName :: string
  Syntax :: "node list"

text \<open>
  The function literal \<^verbatim>\<open>findInterface\<close> passes to \<^verbatim>\<open>ast.Inspect\<close>. Its
  state is the captured variable \<^verbatim>\<open>interfaceMethods\<close>. Reading
  \<^verbatim>\<open>ift.Methods.List\<close> through a nil \<^verbatim>\<open>Methods\<close> panics; a panic ends the
  walk, so every later call leaves a \<open>Panic\<close> state as it is.
\<close>

fun findInterfaceVisit ::
  "string \<Rightarrow> node option \<Rightarrow> field list outcome \<Rightarrow> bool \<times> field list outcome" where
  "findInterfaceVisit interfaceName n (Panic m) = (True, Panic m)"
| "findInterfaceVisit interfaceName (Some (Node (TypeSpec name ty) children))
       (Return interfaceMethods) =
     (if name = interfaceName then
        (case ty of
           InterfaceType methods \<Rightarrow>
             (case methods of
                None \<Rightarrow> (True, Panic ''invalid memory address or nil pointer dereference'')
              | Some l \<Rightarrow> (True, Return l))
         | _ \<Rightarrow> (True, Return interfaceMethods))
      else (True, Return interfaceMethods))"
| "findInterfaceVisit interfaceName n (Return interfaceMethods) =
     (True, Return interfaceMethods)"

text \<open>The loop over \<^verbatim>\<open>pkg.Syntax\<close> and the loop over \<^verbatim>\<open>pkgs\<close>.\<close>

fun syntaxLoop ::
  "string \<Rightarrow> node list \<Rightarrow> field list outcome \<Rightarrow> field list outcome" where
  "syntaxLoop interfaceName [] st = st"
| "syntaxLoop interfaceName (file # files) st =
     syntaxLoop interfaceName files (Inspect (findInterfaceVisit interfaceName) file st)"

fun pkgsLoop ::
  "string \<Rightarrow> package list \<Rightarrow> field list outcome \<times> string
     \<Rightarrow> field list outcome \<times> string" where
  "pkgsLoop interfaceName [] (st, packageName) = (st, packageName)"
| "pkgsLoop interfaceName (pkg # pkgs) (st, packageName) =
     pkgsLoop interfaceName pkgs (syntaxLoop interfaceName (Syntax pkg) st, PkgName pkg)"

text \<open>
  \<^verbatim>\<open>findInterface\<close>. \<open>Load\<close> is \<^verbatim>\<open>packages.Load\<close> at the directory (an
  error message, or the packages) and \<open>PrintErrors\<close> is
  \<^verbatim>\<open>packages.PrintErrors\<close>. A returned triple is the Go triple
  \<^verbatim>\<open>([]*ast.Field, string, error)\<close>.
\<close>

definition findInterface ::
  "(string \<Rightarrow> string + package list) \<Rightarrow> (package list \<Rightarrow> nat) \<Rightarrow> string \<Rightarrow> string
     \<Rightarrow> (field list \<times> string \<times> string option) outcome" where
  "findInterface Load PrintErrors inputDir interfaceName =
     (case Load inputDir of
        Inl err \<Rightarrow> Return ([], [], Some (''load: '' @ err))
      | Inr pkgs \<Rightarrow>
          if PrintErrors pkgs > 0 then Return ([], [], Some ''packages contain errors'')
          else
            (case pkgsLoop interfaceName pkgs (Return [], []) of
               (Panic m, packageName) \<Rightarrow> Panic m
             | (Return interfaceMethods, packageName) \<Rightarrow>
                 Return (interfaceMethods, packageName, None)))"

section \<open>Notions of the specification\<close>

text \<open>
  The invariant of a method record: as many parameter declarations as parameter
  names, as many result declarations as result names.
\<close>

definition balanced :: "methodData \<Rightarrow> bool" where
  "balanced md \<longleftrightarrow> length (Params md) = length (ParamNames md)
                   \<and> length (Results md) = length (ResultNames md)"

text \<open>
  The order in which \<^verbatim>\<open>ast.Inspect\<close> meets the nodes of a tree (a node before
  its children, the children from left to right), and the order in which
  \<^verbatim>\<open>findInterface\<close> meets the nodes of the loaded packages.
\<close>

fun preorder :: "node \<Rightarrow> node list" where
  "preorder (Node k children) = Node k children # concat (map preorder children)"

definition walkOrder :: "package list \<Rightarrow> node list" where
  "walkOrder pkgs = concat (map (\<lambda>pkg. concat (map preorder (Syntax pkg))) pkgs)"

text \<open>
  A matching declaration: a type declaration with the target name whose type is
  an interface; \<open>interfaceDecl\<close> gives its \<^verbatim>\<open>Methods\<close>. \<open>matchingDecls\<close>
  lists the matching declarations of the packages in the order of the walk.
\<close>

fun interfaceDecl :: "string \<Rightarrow> node \<Rightarrow> field list option option" where
  "interfaceDecl interfaceName (Node (TypeSpec name (InterfaceType methods)) children) =
     (if name = interfaceName then Some methods else None)"
| "interfaceDecl interfaceName n = None"

definition matchingDecls :: "string \<Rightarrow> package list \<Rightarrow> field list option list" where
  "matchingDecls interfaceName pkgs =
     List.map_filter (interfaceDecl interfaceName) (walkOrder pkgs)"

text \<open>What one call of the function literal does to \<^verbatim>\<open>interfaceMethods\<close>.\<close>

definition visitStep :: "string \<Rightarrow> node \<Rightarrow> field list outcome \<Rightarrow> field list outcome" where
  "visitStep interfaceName n st = snd (findInterfaceVisit interfaceName (Some n) st)"

text \<open>
  A \<^verbatim>\<open>packages.Load\<close> that finds the given packages in every directory, and a
  \<^verbatim>\<open>packages.PrintErrors\<close> that finds no error in them.
\<close>

definition loadsPackages :: "package list \<Rightarrow> string \<Rightarrow> string + package list" where
  "loadsPackages pkgs inputDir = Inr pkgs"

definition reportsNoErrors :: "package list \<Rightarrow> nat" where
  "reportsNoErrors pkgs = 0"

section \<open>Lengths of the normalized lists\<close>

lemma length_getFieldListBody:
  "length (getFieldListBody f) = (if Names f = [] then 1 else length (Names f))"
  by (cases f) (simp add: Let_def)

lemma length_getFieldListLoop_names:
  "length (getFieldListLoop fs) = length (getFieldNamesLoop fs)"
  by (induction fs) (simp_all add: length_getFieldListBody)

lemma length_getFieldListLoop_results:
  "length (getFieldListLoop fs) = length (getResultNamesLoop i fs)"
  by (induction fs arbitrary: i) (simp_all add: length_getFieldListBody)

lemma length_getFieldList_names:
  "length (getFieldList fo) = length (getFieldNames fo)"
  by (cases fo) (simp_all add: length_getFieldListLoop_names)

lemma length_getFieldList_results:
  "length (getFieldList fo) = length (getResultNames fo)"
  by (cases fo) (simp_all add: length_getFieldListLoop_results)

text \<open>The loop over the methods keeps the invariant of the records collected so far.\<close>

lemma methodsDataLoop_balanced:
  "methodsDataLoop acc methods = Return mds \<Longrightarrow> \<forall>md\<in>set acc. balanced md
     \<Longrightarrow> \<forall>md\<in>set mds. balanced md"
proof (induction acc methods rule: methodsDataLoop.induct)
  case (1 methodsData)
  then show ?case by simp
next
  case (2 methodsData m ms)
  show ?case
  proof (cases "length (Names m) = 0")
    case True
    with 2 show ?thesis by simp
  next
    case False
    with "2.prems"(1) obtain p r where ty: "Type m = FuncType p r"
      by (cases "Type m") (simp_all add: Let_def)
    let ?md = "\<lparr>Name = Names m ! 0, Params = getFieldList p,
                 ParamNames = getFieldNames p, Results = getFieldList r,
                 ResultNames = getResultNames r\<rparr>"
    have b: "balanced ?md"
      using length_getFieldList_names [of p] length_getFieldList_results [of r]
      by (simp add: balanced_def)
    have run: "methodsDataLoop (methodsData @ [?md]) ms = Return mds"
      using "2.prems"(1) False ty by (simp add: Let_def)
    have "\<forall>md\<in>set (methodsData @ [?md]). balanced md"
      using "2.prems"(2) b by simp
    from "2.IH"(2)[OF False refl ty refl refl refl refl run this]
    show ?thesis .
  qed
qed

text \<open>
  C3. Every record that signature normalization builds from the methods of an
  interface has as many parameter declaration strings as parameter names and as
  many result declaration strings as result names.
\<close>

theorem methodData_lengths:
  "methodsDataLoop [] methods = Return mds \<Longrightarrow> md \<in> set mds \<Longrightarrow>
     length (Params md) = length (ParamNames md)
       \<and> length (Results md) = length (ResultNames md)"
  using methodsDataLoop_balanced [of "[]" methods mds] by (simp add: balanced_def)

text \<open>
  The method \<^verbatim>\<open>ThingWithParams(a int, b string) (string, error)\<close>: two
  declarations and two names on each side.
\<close>

theorem methodData_lengths_witness:
  "methodsDataLoop []
     [Field [''ThingWithParams'']
        (FuncType (Some [Field [''a''] (Ident ''int''), Field [''b''] (Ident ''string'')])
                  (Some [Field [] (Ident ''string''), Field [] (Ident ''error'')]))]
   = Return [\<lparr>Name = ''ThingWithParams'', Params = [''a int'', ''b string''],
              ParamNames = [''a'', ''b''], Results = [''string'', ''error''],
              ResultNames = [''R0'', ''R1'']\<rparr>]
   \<and> length [''a int'', ''b string''] = length [''a'', ''b'']
   \<and> length [''string'', ''error''] = length [''R0'', ''R1'']"
  using methodData_lengths [of
     "[Field [''ThingWithParams'']
        (FuncType (Some [Field [''a''] (Ident ''int''), Field [''b''] (Ident ''string'')])
                  (Some [Field [] (Ident ''string''), Field [] (Ident ''error'')]))]"
     "[\<lparr>Name = ''ThingWithParams'', Params = [''a int'', ''b string''],
              ParamNames = [''a'', ''b''], Results = [''string'', ''error''],
              ResultNames = [''R0'', ''R1'']\<rparr>]"
     "\<lparr>Name = ''ThingWithParams'', Params = [''a int'', ''b string''],
              ParamNames = [''a'', ''b''], Results = [''string'', ''error''],
              ResultNames = [''R0'', ''R1'']\<rparr>"]
  by (simp add: Let_def itoa.simps)

text \<open>
  C10. \<^verbatim>\<open>zip\<close> panics exactly when its two lists differ in length; on the
  parameter lists and on the result lists of every record that signature
  normalization builds it returns, so its panic is not reached while such a record
  is rendered.
\<close>

theorem zip_go_panic_unreachable:
  "((\<exists>m. zip_go sprintf a b fmtStr = Panic m) \<longleftrightarrow> length a \<noteq> length b)
   \<and> (methodsDataLoop [] methods = Return mds \<longrightarrow> md \<in> set mds \<longrightarrow>
        (\<exists>zs. zip_go sprintf (Params md) (ParamNames md) fmtStr = Return zs)
      \<and> (\<exists>zs. zip_go sprintf (Results md) (ResultNames md) fmtStr' = Return zs))"
  using methodsDataLoop_balanced [of "[]" methods mds]
  by (auto simp add: zip_go_def balanced_def)

text \<open>
  Lists of unequal length panic; the lists of \<^verbatim>\<open>ThingWithParams\<close> are zipped.
\<close>

theorem zip_go_panic_unreachable_witness:
  "(\<exists>m. zip_go (\<lambda>f x y. x @ '' '' @ y) [''a''] [] ''%s %s'' = Panic m)
   \<and> zip_go (\<lambda>f x y. x @ '' '' @ y) [''a int'', ''b string''] [''a'', ''b''] ''%s %s''
       = Return [''a int a'', ''b string b'']
   \<and> zip_go (\<lambda>f x y. x @ '' '' @ y) [''string'', ''error''] [''R0'', ''R1''] ''%s %s''
       = Return [''string R0'', ''error R1'']"
  using zip_go_panic_unreachable [of "\<lambda>f x y. x @ '' '' @ y" "[''a'']" "[]" "''%s %s''"
     "[Field [''ThingWithParams'']
        (FuncType (Some [Field [''a''] (Ident ''int''), Field [''b''] (Ident ''string'')])
                  (Some [Field [] (Ident ''string''), Field [] (Ident ''error'')]))]"
     "[\<lparr>Name = ''ThingWithParams'', Params = [''a int'', ''b string''],
              ParamNames = [''a'', ''b''], Results = [''string'', ''error''],
              ResultNames = [''R0'', ''R1'']\<rparr>]"
     "\<lparr>Name = ''ThingWithParams'', Params = [''a int'', ''b string''],
              ParamNames = [''a'', ''b''], Results = [''string'', ''error''],
              ResultNames = [''R0'', ''R1'']\<rparr>" "''%s %s''"]
  by (simp add: Let_def itoa.simps zip_go_def upt_rec)

section \<open>Fan-out of the fields\<close>

lemma getFieldListBody_eq:
  "getFieldListBody f =
     (if Names f = [] then [getTypeString (Type f)]
      else map (\<lambda>n. n @ '' '' @ getTypeString (Type f)) (Names f))"
  by (cases f) (simp add: Let_def)

lemma getFieldListLoop_append:
  "getFieldListLoop (xs @ ys) = getFieldListLoop xs @ getFieldListLoop ys"
  by (induction xs) simp_all

lemma getFieldNamesLoop_append:
  "getFieldNamesLoop (xs @ ys) = getFieldNamesLoop xs @ getFieldNamesLoop ys"
  by (induction xs) simp_all

lemma getResultNamesLoop_append:
  "getResultNamesLoop i (xs @ ys) =
     getResultNamesLoop i xs @ getResultNamesLoop (i + length xs) ys"
  by (induction xs arbitrary: i) simp_all

text \<open>
  C4. In a field list, a field with \<open>k \<ge> 1\<close> names contributes \<open>k\<close> entries,
  one for each name in order, each declaration carrying the same printed type; a
  field without names contributes exactly one entry: the printed type alone as
  declaration, \<open>_\<close> as parameter name. The entries stand between those of the
  fields before and those of the fields after.
\<close>

theorem field_fan_out:
  "getFieldList (Some (pre @ f # post)) =
     getFieldList (Some pre)
       @ (if Names f = [] then [getTypeString (Type f)]
          else map (\<lambda>n. n @ '' '' @ getTypeString (Type f)) (Names f))
       @ getFieldList (Some post)
   \<and> getFieldNames (Some (pre @ f # post)) =
       getFieldNames (Some pre) @ (if Names f = [] then [''_''] else Names f)
         @ getFieldNames (Some post)
   \<and> getResultNames (Some (pre @ f # post)) =
       getResultNames (Some pre)
         @ (if Names f = [] then [''R'' @ itoa (length pre)] else Names f)
         @ getResultNamesLoop (Suc (length pre)) post"
  by (simp add: getFieldListLoop_append getFieldNamesLoop_append
        getResultNamesLoop_append getFieldListBody_eq)

text \<open>The list \<^verbatim>\<open>(string, a, b int, error)\<close>, read as parameters and as results.\<close>

theorem field_fan_out_witness:
  "getFieldList (Some ([Field [] (Ident ''string'')]
       @ Field [''a'', ''b''] (Ident ''int'') # [Field [] (Ident ''error'')]))
     = [''string'', ''a int'', ''b int'', ''error'']
   \<and> getFieldNames (Some ([Field [] (Ident ''string'')]
       @ Field [''a'', ''b''] (Ident ''int'') # [Field [] (Ident ''error'')]))
     = [''_'', ''a'', ''b'', ''_'']
   \<and> getResultNames (Some ([Field [] (Ident ''string'')]
       @ Field [''a'', ''b''] (Ident ''int'') # [Field [] (Ident ''error'')]))
     = [''R0'', ''a'', ''b'', ''R2'']"
  using field_fan_out [of "[Field [] (Ident ''string'')]"
      "Field [''a'', ''b''] (Ident ''int'')" "[Field [] (Ident ''error'')]"]
  by (simp add: itoa.simps)

section \<open>Names of the results\<close>

text \<open>
  C2, as stated, fails: for the results \<^verbatim>\<open>(a, b int, int)\<close> the third name is
  \<open>R1\<close>, the index of the field, and not \<open>R2\<close>, the position of the entry.
\<close>

theorem getResultNames_counterexample:
  "getResultNames (Some [Field [''a'', ''b''] (Ident ''int''), Field [] (Ident ''int'')])
     = [''a'', ''b'', ''R1'']
   \<and> getResultNames (Some [Field [''a'', ''b''] (Ident ''int''), Field [] (Ident ''int'')])
     \<noteq> [''a'', ''b'', ''R2'']"
  by (simp add: itoa.simps)

lemma length_getResultNamesLoop_single:
  "\<forall>f\<in>set fs. length (Names f) \<le> 1 \<Longrightarrow> length (getResultNamesLoop i fs) = length fs"
  by (induction fs arbitrary: i) (auto simp: le_Suc_eq)

text \<open>
  C2, amended. A result field without names gets the name \<open>Rn\<close> where \<open>n\<close> is
  the zero-based index of the field in the result field list. The index is the
  position of the entry among all result entries when every earlier field
  contributes one entry, as in a list of unnamed results.
\<close>

theorem getResultNames_field_index:
  "getResultNames (Some (pre @ Field [] ty # post)) ! length (getResultNames (Some pre))
     = ''R'' @ itoa (length pre)
   \<and> ((\<forall>f\<in>set pre. length (Names f) \<le> 1) \<longrightarrow>
        length (getResultNames (Some pre)) = length pre)"
  by (simp add: getResultNamesLoop_append length_getResultNamesLoop_single nth_append)

text \<open>The results \<^verbatim>\<open>(string, error)\<close>: the second entry is \<open>R1\<close>.\<close>

theorem getResultNames_field_index_witness:
  "getResultNames (Some ([Field [] (Ident ''string'')]
       @ Field [] (Ident ''error'') # [])) ! 1 = ''R1''
   \<and> length (getResultNames (Some [Field [] (Ident ''string'')])) = 1"
  using getResultNames_field_index [of "[Field [] (Ident ''string'')]" "Ident ''error''" "[]"]
  by (simp add: itoa.simps)

section \<open>The type-expression printer\<close>

lemma typeName_nonempty: "typeName k \<noteq> []"
  by (cases k) simp_all

lemma getTypeString_empty_iff: "getTypeString e = [] \<longleftrightarrow> e = Ident []"
  by (cases e) (simp_all add: typeName_nonempty)

text \<open>
  C7. \<open>getTypeString\<close> is a total function (its recursion terminates on every
  expression) and prints: an identifier as its name, a qualified name as
  \<^verbatim>\<open>pkg.Type\<close>, a pointer as \<^verbatim>\<open>*\<close> before the printed element, a slice as
  \<^verbatim>\<open>[]\<close> before the printed element, a map as \<^verbatim>\<open>map[K]V\<close>, the empty
  interface as \<^verbatim>\<open>interface{}\<close>, a function type as \<^verbatim>\<open>func(params) results\<close>
  with the printed fields joined by commas, and any other node as a non-empty
  fallback text. No expression is dropped: only an identifier whose name is empty
  prints as the empty text.
\<close>

theorem getTypeString_rules:
  "getTypeString (Ident name) = name
   \<and> getTypeString (SelectorExpr (Ident pkg) name) = pkg @ ''.'' @ name
   \<and> getTypeString (StarExpr t) = ''*'' @ getTypeString t
   \<and> getTypeString (ArrayType None t) = ''[]'' @ getTypeString t
   \<and> getTypeString (MapType k v) = ''map['' @ getTypeString k @ '']'' @ getTypeString v
   \<and> getTypeString (InterfaceType (Some [])) = ''interface{}''
   \<and> getTypeString (FuncType ps rs) =
       ''func('' @ Join (getFieldList ps) '', '' @ '') '' @ Join (getFieldList rs) '', ''
   \<and> getTypeString (Other kind) \<noteq> []
   \<and> (getTypeString e = [] \<longleftrightarrow> e = Ident [])"
  by (simp add: typeName_nonempty getTypeString_empty_iff)

text \<open>
  The types \<^verbatim>\<open>map[string][]*pkg.T\<close>, \<^verbatim>\<open>func(a, b int) error\<close> and a
  channel type.
\<close>

theorem getTypeString_rules_witness:
  "getTypeString
     (MapType (Ident ''string'') (ArrayType None (StarExpr (SelectorExpr (Ident ''pkg'') ''T''))))
     = ''map[string][]*pkg.T''
   \<and> getTypeString
       (FuncType (Some [Field [''a'', ''b''] (Ident ''int'')]) (Some [Field [] (Ident ''error'')]))
     = ''func(a int, b int) error''
   \<and> getTypeString (Other ChanType) = ''*ast.ChanType''"
  using getTypeString_rules [where name = "''T''" and pkg = "''pkg''"
      and t = "SelectorExpr (Ident ''pkg'') ''T''" and k = "Ident ''string''"
      and v = "ArrayType None (StarExpr (SelectorExpr (Ident ''pkg'') ''T''))"
      and ps = "Some [Field [''a'', ''b''] (Ident ''int'')]"
      and rs = "Some [Field [] (Ident ''error'')]" and kind = ChanType]
  by (simp add: Let_def)

section \<open>The methods of the stub\<close>

lemma methodsDataLoop_named:
  "\<forall>m\<in>set ms. Names m \<noteq> [] \<longrightarrow> (\<exists>p r. Type m = FuncType p r) \<Longrightarrow>
     \<exists>mds. methodsDataLoop acc ms = Return mds
       \<and> map Name mds = map Name acc @ map (\<lambda>m. Names m ! 0) (filter (\<lambda>m. Names m \<noteq> []) ms)"
proof (induction ms arbitrary: acc)
  case Nil
  then show ?case by simp
next
  case (Cons m ms)
  show ?case
  proof (cases "Names m = []")
    case True
    with Cons show ?thesis by simp
  next
    case False
    with Cons.prems obtain p r where ty: "Type m = FuncType p r" by auto
    from Cons.prems have "\<forall>m\<in>set ms. Names m \<noteq> [] \<longrightarrow> (\<exists>p r. Type m = FuncType p r)"
      by simp
    from Cons.IH [OF this, of "acc @ [\<lparr>Name = Names m ! 0, Params = getFieldList p,
          ParamNames = getFieldNames p, Results = getFieldList r,
          ResultNames = getResultNames r\<rparr>]"] False ty
    show ?thesis
      by (simp add: Let_def)
  qed
qed

text \<open>
  C5. When every method field that carries a name has a function type (as the
  methods of a parsed interface have), the method loop returns, and its records
  are those of the fields that carry a name, one for each, in the order of the
  declarations; fields without a name (embedded interfaces) give no record.
\<close>

theorem methods_in_declaration_order:
  "\<forall>m\<in>set methods. Names m \<noteq> [] \<longrightarrow> (\<exists>p r. Type m = FuncType p r) \<Longrightarrow>
     \<exists>mds. methodsDataLoop [] methods = Return mds
       \<and> map Name mds = map (\<lambda>m. Names m ! 0) (filter (\<lambda>m. Names m \<noteq> []) methods)"
  using methodsDataLoop_named [of methods "[]"] by simp

text \<open>Two methods around an embedded interface.\<close>

theorem methods_in_declaration_order_witness:
  "methodsDataLoop []
       [Field [''Thing''] (FuncType (Some []) (Some [Field [] (Ident ''error'')])),
        Field [] (Ident ''Embedded''),
        Field [''ThingWithParam'']
          (FuncType (Some [Field [''x''] (Ident ''int'')])
                    (Some [Field [] (Ident ''error'')]))]
     = Return
        [\<lparr>Name = ''Thing'', Params = [], ParamNames = [], Results = [''error''],
          ResultNames = [''R0'']\<rparr>,
         \<lparr>Name = ''ThingWithParam'', Params = [''x int''], ParamNames = [''x''],
          Results = [''error''], ResultNames = [''R0'']\<rparr>]"
  using methods_in_declaration_order [of
       "[Field [''Thing''] (FuncType (Some []) (Some [Field [] (Ident ''error'')])),
        Field [] (Ident ''Embedded''),
        Field [''ThingWithParam'']
          (FuncType (Some [Field [''x''] (Ident ''int'')])
                    (Some [Field [] (Ident ''error'')]))]"]
  by (simp add: Let_def itoa.simps)

section \<open>Formatting of the rendered text\<close>

text \<open>
  C8. Once the template has rendered a text: with formatting disabled
  \<open>generateStubCode\<close> returns that text unchanged and no error; with formatting
  enabled and a text that fails to parse it returns an error (and the empty
  string), not the unformatted text.
\<close>

theorem generateStubCode_formatting:
  "templateParse ext = Inr tmpl \<Longrightarrow> methodsDataLoop [] methods = Return mds \<Longrightarrow>
   templateExecute ext tmpl
     \<lparr>PackageName = packageName, InterfaceName = interfaceName,
      StubName = ''Stub'' @ interfaceName, Methods = mds\<rparr> = Inr buf \<Longrightarrow>
     fst (generateStubCode ext interfaceName methods packageName True stdout)
       = Return (buf, None)
     \<and> (parserParseFile ext buf = Inl err \<longrightarrow>
          fst (generateStubCode ext interfaceName methods packageName False stdout)
            = Return ([], Some (''error parsing generated code: '' @ err))
        \<and> fst (generateStubCode ext interfaceName methods packageName False stdout)
            \<noteq> Return (buf, None))"
  by (simp add: generateStubCode_def Let_def)

text \<open>A template that renders \<^verbatim>\<open>package p\<close> and a parser that rejects it.\<close>

theorem generateStubCode_formatting_witness:
  "fst (generateStubCode
     \<lparr>templateParse = Inr (), templateExecute = (\<lambda>t spec. Inr (''package '' @ PackageName spec)),
      parserParseFile = (\<lambda>src. if src = ''package p'' then Inl ''1:10: expected ;'' else Inr src),
      formatNode = Inr, jsonMarshalIndent = (\<lambda>mds. ''null'')\<rparr>
     ''Thinger'' [Field [''Thing''] (FuncType (Some []) None)] ''p'' True [])
     = Return (''package p'', None)
   \<and> fst (generateStubCode
     \<lparr>templateParse = Inr (), templateExecute = (\<lambda>t spec. Inr (''package '' @ PackageName spec)),
      parserParseFile = (\<lambda>src. if src = ''package p'' then Inl ''1:10: expected ;'' else Inr src),
      formatNode = Inr, jsonMarshalIndent = (\<lambda>mds. ''null'')\<rparr>
     ''Thinger'' [Field [''Thing''] (FuncType (Some []) None)] ''p'' False [])
     = Return ([], Some ''error parsing generated code: 1:10: expected ;'')"
  using generateStubCode_formatting [of
     "\<lparr>templateParse = Inr (), templateExecute = (\<lambda>t spec. Inr (''package '' @ PackageName spec)),
      parserParseFile = (\<lambda>src. if src = ''package p'' then Inl ''1:10: expected ;'' else Inr src),
      formatNode = Inr, jsonMarshalIndent = (\<lambda>mds. ''null'')\<rparr>"
     "()" "[Field [''Thing''] (FuncType (Some []) None)]"
     "[\<lparr>Name = ''Thing'', Params = [], ParamNames = [], Results = [], ResultNames = []\<rparr>]"
     "''p''" "''Thinger''" "''package p''" "[]" "''1:10: expected ;''"]
  by (simp add: Let_def)

section \<open>The walk of the interface extractor\<close>

lemma findInterfaceVisit_continues: "fst (findInterfaceVisit iname n st) = True"
  by (induction iname n st rule: findInterfaceVisit.induct)
     (simp_all split: expr.splits option.splits)

lemma findInterfaceVisit_nil: "findInterfaceVisit iname None st = (True, st)"
  by (cases st) simp_all

lemma fold_concat_map:
  "(\<And>c s. c \<in> set cs \<Longrightarrow> g c s = fold h (p c) s)
     \<Longrightarrow> fold g cs s = fold h (concat (map p cs)) s"
  by (induction cs arbitrary: s) simp_all

lemma Inspect_visit_fold:
  "Inspect (findInterfaceVisit iname) n st = fold (visitStep iname) (preorder n) st"
proof (induction n arbitrary: st)
  case (Node k children)
  obtain st' where v: "findInterfaceVisit iname (Some (Node k children)) st = (True, st')"
    using findInterfaceVisit_continues [of iname "Some (Node k children)" st]
    by (cases "findInterfaceVisit iname (Some (Node k children)) st") simp
  have "fold (Inspect (findInterfaceVisit iname)) children st'
          = fold (visitStep iname) (concat (map preorder children)) st'"
    by (rule fold_concat_map) (rule Node.IH)
  moreover have "visitStep iname (Node k children) st = st'"
    using v by (simp add: visitStep_def)
  ultimately show ?case
    using v by (simp add: findInterfaceVisit_nil)
qed

lemma syntaxLoop_fold:
  "syntaxLoop iname files st = fold (visitStep iname) (concat (map preorder files)) st"
  by (induction files arbitrary: st) (simp_all add: Inspect_visit_fold)

lemma pkgsLoop_fold:
  "pkgsLoop iname pkgs (st, pn) =
     (fold (visitStep iname) (walkOrder pkgs) st,
      if pkgs = [] then pn else PkgName (last pkgs))"
  by (induction pkgs arbitrary: st pn) (simp_all add: walkOrder_def syntaxLoop_fold)

lemma visitStep_Return:
  "visitStep iname n (Return ms) =
     (case interfaceDecl iname n of
        None \<Rightarrow> Return ms
      | Some None \<Rightarrow> Panic ''invalid memory address or nil pointer dereference''
      | Some (Some l) \<Rightarrow> Return l)"
  by (induction iname n rule: interfaceDecl.induct)
     (simp_all add: visitStep_def split: option.splits)

lemma fold_visitStep_no_match:
  "List.map_filter (interfaceDecl iname) ns = [] \<Longrightarrow>
     fold (visitStep iname) ns (Return ms) = Return ms"
  by (induction ns)
     (simp_all add: visitStep_Return split: option.splits)

lemma fold_visitStep_last_match:
  "List.map_filter (interfaceDecl iname) ns = ds @ [Some l] \<Longrightarrow> None \<notin> set ds \<Longrightarrow>
     fold (visitStep iname) ns (Return ms) = Return l"
proof (induction ns arbitrary: ds ms)
  case Nil
  then show ?case by simp
next
  case (Cons n ns)
  show ?case
  proof (cases "interfaceDecl iname n")
    case None
    with Cons show ?thesis by (simp add: visitStep_Return)
  next
    case (Some d)
    with Cons.prems(1)
    have eq: "d # List.map_filter (interfaceDecl iname) ns = ds @ [Some l]"
      by simp
    show ?thesis
    proof (cases ds)
      case Nil
      with eq have "d = Some l" and "List.map_filter (interfaceDecl iname) ns = []"
        by simp_all
      with Some show ?thesis
        by (simp add: visitStep_Return fold_visitStep_no_match)
    next
      case (Cons d' ds')
      with eq have d: "d' = d" and rest: "List.map_filter (interfaceDecl iname) ns = ds' @ [Some l]"
        by simp_all
      from Cons d Cons.prems(2) obtain l' where l': "d = Some l'" and nn: "None \<notin> set ds'"
        by (cases d) auto
      from Cons.IH [OF rest nn] Some l' show ?thesis
        by (simp add: visitStep_Return)
    qed
  qed
qed

text \<open>
  C1, as stated, fails. The file below declares the interface \<^verbatim>\<open>T\<close> with the
  method \<^verbatim>\<open>A\<close> at package level and, deeper in the tree (a type declaration
  inside a function body), an interface \<^verbatim>\<open>T\<close> with the method \<^verbatim>\<open>B\<close>;
  \<open>findInterface\<close> returns the methods of the second.
\<close>

theorem findInterface_first_match_counterexample:
  "findInterface
     (loadsPackages
       [\<lparr>PkgName = ''p'', Syntax =
          [Node OtherNode
            [Node OtherNode
              [Node (TypeSpec ''T''
                 (InterfaceType (Some [Field [''A''] (FuncType (Some []) None)]))) []],
             Node OtherNode
              [Node OtherNode
                [Node (TypeSpec ''T''
                   (InterfaceType (Some [Field [''B''] (FuncType (Some []) None)]))) []]]]]\<rparr>])
     reportsNoErrors ''.'' ''T''
   = Return ([Field [''B''] (FuncType (Some []) None)], ''p'', None)
   \<and> [Field [''B''] (FuncType (Some []) None)] \<noteq> [Field [''A''] (FuncType (Some []) None)]"
  by (simp add: findInterface_def loadsPackages_def reportsNoErrors_def)

text \<open>
  C1, amended. When the loaded packages hold one or more matching declarations
  (none of them with a nil \<^verbatim>\<open>Methods\<close>), \<open>findInterface\<close> returns the
  method list of the last one in the order of the walk (every assignment
  overwrites the one before), with the name of the last package.
\<close>

theorem findInterface_last_match:
  "Load inputDir = Inr pkgs \<Longrightarrow> PrintErrors pkgs = 0 \<Longrightarrow>
   matchingDecls interfaceName pkgs = ds @ [Some l] \<Longrightarrow> None \<notin> set ds \<Longrightarrow>
     findInterface Load PrintErrors inputDir interfaceName
       = Return (l, PkgName (last pkgs), None)"
proof -
  assume load: "Load inputDir = Inr pkgs" and errs: "PrintErrors pkgs = 0"
    and m: "matchingDecls interfaceName pkgs = ds @ [Some l]" and nn: "None \<notin> set ds"
  from m have ne: "pkgs \<noteq> []"
    by (auto simp add: matchingDecls_def walkOrder_def)
  from m have "fold (visitStep interfaceName) (walkOrder pkgs) (Return []) = Return l"
    unfolding matchingDecls_def by (rule fold_visitStep_last_match) (rule nn)
  with load errs ne show ?thesis
    by (simp add: findInterface_def pkgsLoop_fold)
qed

text \<open>The two declarations of \<^verbatim>\<open>T\<close> again.\<close>

theorem findInterface_last_match_witness:
  "findInterface
     (loadsPackages
       [\<lparr>PkgName = ''p'', Syntax =
          [Node OtherNode
            [Node OtherNode
              [Node (TypeSpec ''T''
                 (InterfaceType (Some [Field [''A''] (FuncType (Some []) None)]))) []],
             Node OtherNode
              [Node OtherNode
                [Node (TypeSpec ''T''
                   (InterfaceType (Some [Field [''B''] (FuncType (Some []) None)]))) []]]]]\<rparr>])
     reportsNoErrors ''.'' ''T''
   = Return ([Field [''B''] (FuncType (Some []) None)], ''p'', None)"
  using findInterface_last_match [of
     "loadsPackages
       [\<lparr>PkgName = ''p'', Syntax =
          [Node OtherNode
            [Node OtherNode
              [Node (TypeSpec ''T''
                 (InterfaceType (Some [Field [''A''] (FuncType (Some []) None)]))) []],
             Node OtherNode
              [Node OtherNode
                [Node (TypeSpec ''T''
                   (InterfaceType (Some [Field [''B''] (FuncType (Some []) None)]))) []]]]]\<rparr>]"
     "''.''"
     "[\<lparr>PkgName = ''p'', Syntax =
          [Node OtherNode
            [Node OtherNode
              [Node (TypeSpec ''T''
                 (InterfaceType (Some [Field [''A''] (FuncType (Some []) None)]))) []],
             Node OtherNode
              [Node OtherNode
                [Node (TypeSpec ''T''
                   (InterfaceType (Some [Field [''B''] (FuncType (Some []) None)]))) []]]]]\<rparr>]"
     reportsNoErrors "''T''"
     "[Some [Field [''A''] (FuncType (Some []) None)]]"
     "[Field [''B''] (FuncType (Some []) None)]"]
  by (simp add: loadsPackages_def reportsNoErrors_def matchingDecls_def walkOrder_def)

text \<open>
  C6. When loading succeeds without errors and no type declaration with the target
  name has an interface type, \<open>findInterface\<close> returns the empty method list and
  a nil error. The result depends on the package names alone, so a missing type
  and a type that is not an interface give the same result.
\<close>

theorem findInterface_no_match:
  "Load inputDir = Inr pkgs \<Longrightarrow> PrintErrors pkgs = 0 \<Longrightarrow>
   matchingDecls interfaceName pkgs = [] \<Longrightarrow>
     findInterface Load PrintErrors inputDir interfaceName
       = Return ([], if pkgs = [] then [] else PkgName (last pkgs), None)"
  by (simp add: findInterface_def pkgsLoop_fold matchingDecls_def fold_visitStep_no_match)

text \<open>A package where \<^verbatim>\<open>T\<close> is a struct, and one that has no \<^verbatim>\<open>T\<close>.\<close>

theorem findInterface_no_match_witness:
  "findInterface
     (loadsPackages
       [\<lparr>PkgName = ''p'', Syntax =
          [Node OtherNode [Node OtherNode [Node (TypeSpec ''T'' (Other StructType)) []]]]\<rparr>])
     reportsNoErrors ''.'' ''T''
   = Return ([], ''p'', None)
   \<and> findInterface
     (loadsPackages
       [\<lparr>PkgName = ''p'', Syntax =
          [Node OtherNode [Node OtherNode
             [Node (TypeSpec ''U'' (InterfaceType (Some [Field [''A''] (FuncType (Some []) None)])))
                []]]]\<rparr>])
     reportsNoErrors ''.'' ''T''
   = Return ([], ''p'', None)"
  using findInterface_no_match [of
     "loadsPackages
       [\<lparr>PkgName = ''p'', Syntax =
          [Node OtherNode [Node OtherNode [Node (TypeSpec ''T'' (Other StructType)) []]]]\<rparr>]"
     "''.''"
     "[\<lparr>PkgName = ''p'', Syntax =
          [Node OtherNode [Node OtherNode [Node (TypeSpec ''T'' (Other StructType)) []]]]\<rparr>]"
     reportsNoErrors "''T''"]
    findInterface_no_match [of
     "loadsPackages
       [\<lparr>PkgName = ''p'', Syntax =
          [Node OtherNode [Node OtherNode
             [Node (TypeSpec ''U'' (InterfaceType (Some [Field [''A''] (FuncType (Some []) None)])))
                []]]]\<rparr>]"
     "''.''"
     "[\<lparr>PkgName = ''p'', Syntax =
          [Node OtherNode [Node OtherNode
             [Node (TypeSpec ''U'' (InterfaceType (Some [Field [''A''] (FuncType (Some []) None)])))
                []]]]\<rparr>]"
     reportsNoErrors "''T''"]
  by (simp add: loadsPackages_def reportsNoErrors_def matchingDecls_def walkOrder_def)

end
